theory Spec2Isabelle
  imports Complex_Main "HOL-Library.Word"
begin

unbundle bit_operations_syntax

section \<open>Python values shared by both decoders\<close>

text \<open>
  Python integers are unbounded and are modelled by \<open>int\<close>.  Python floats are modelled by
  exact rationals: \<open>sample_usec\<close>, the run length and the quotient that is rounded are
  values of type \<open>rat\<close>, so the rounding error of the float operations is not part of
  the model.  Every exception the decoders can raise is a value of \<open>py_exn\<close>; a method
  that can raise returns the decoder object as the exception leaves it, together with the
  exception.
\<close>

datatype py_exn =
    NotConfigured       \<comment> \<open>\<open>Exception("Cannot decode without samplerate.")\<close>\<close>
  | ZeroDivisionError
  | TypeError
  | ValueError
  | KeyError
  | IndexError
  | AttributeError

text \<open>\<open>int(x)\<close> on a float truncates towards zero.\<close>

definition py_int :: "rat \<Rightarrow> int" where
  "py_int x = (if 0 \<le> x then \<lfloor>x\<rfloor> else \<lceil>x\<rceil>)"

text \<open>\<open>round(x)\<close> with one argument rounds to the nearest integer, a tie to the even one.\<close>

definition py_round :: "rat \<Rightarrow> int" where
  "py_round x =
     (let f = \<lfloor>x\<rfloor>; d = x - of_int f
      in if d < 1 / 2 then f
         else if 1 / 2 < d then f + 1
         else if even f then f else f + 1)"

section \<open>DMX512 decoder (decoders/dmx512/pd.py)\<close>

datatype dmx_state = FIND_BREAK | MARK_MAB | READ_BYTE | MARK_IFT

text \<open>
  The text of an annotation is kept as the literal of the source, with the value that the
  source formats into it as an argument: \<open>Bit_text v\<close> is \<open>str(bit_value)\<close>,
  \<open>Channel_text c\<close> is \<open>'Channel ' + str(self.channel)\<close> and \<open>Data_text b\<close> is
  \<open>str(self.byte) + " / " + str(hex(self.byte))\<close>.
\<close>

datatype dmx_text =
    Break_text | MAB_text | Start_bit | Invalid_start_bit | Stop_bit | Invalid_stop_bit
  | Bit_text int | Start_code | Channel_text int | Data_text int
  | Interframe | Interpacket

text \<open>One call of \<open>self.put(ss, es, self.out_ann, [cls, [text]])\<close>.\<close>

type_synonym dmx_ann = "int \<times> int \<times> nat \<times> dmx_text"

datatype conf_key = SRD_CONF_SAMPLERATE | Other_conf int

text \<open>
  The fields of the decoder object.  \<open>__init__\<close> sets \<open>samplerate\<close>, \<open>sample_usec\<close>
  (both \<open>None\<close>), \<open>samplenum\<close>, \<open>run_start\<close>, \<open>run_bit\<close> and \<open>state\<close>; the
  other attributes are created by the first assignment, which on every path of \<open>decode\<close>
  comes before the first read, and they start at 0 here.  \<open>bit_no\<close> is the attribute
  \<open>self.bit\<close>, and \<open>out_ann\<close> holds the annotations put so far, oldest first.
  \<open>start\<close> only registers the two outputs, and nothing is ever put on the binary one.
\<close>

record dmx =
  samplerate :: "int option"
  sample_usec :: "rat option"
  samplenum :: int
  run_start :: int
  run_bit :: int
  state :: dmx_state
  skip_per_bit :: int
  bit_break :: int
  channel :: int
  bit_no :: int
  aggreg :: int
  byte :: int
  next_sample :: int
  out_ann :: "dmx_ann list"

definition dmx_init :: dmx where
  "dmx_init =
     \<lparr> samplerate = None, sample_usec = None, samplenum = - 1, run_start = - 1,
       run_bit = 0, state = FIND_BREAK, skip_per_bit = 0, bit_break = 0, channel = 0,
       bit_no = 0, aggreg = 0, byte = 0, next_sample = 0, out_ann = [] \<rparr>"

definition put :: "dmx \<Rightarrow> int \<Rightarrow> int \<Rightarrow> nat \<Rightarrow> dmx_text \<Rightarrow> dmx" where
  "put s ss es cls txt = s\<lparr>out_ann := out_ann s @ [(ss, es, cls, txt)]\<rparr>"

text \<open>
  \<open>metadata\<close>: the sample rate is stored first, so a rate of 0 leaves it stored and raises
  in the division that follows.
\<close>

definition metadata :: "dmx \<Rightarrow> conf_key \<Rightarrow> int \<Rightarrow> dmx \<times> py_exn option" where
  "metadata s key v =
     (if key = SRD_CONF_SAMPLERATE then
        (let s1 = s\<lparr>samplerate := Some v\<rparr> in
         if v = 0 then (s1, Some ZeroDivisionError)
         else
           (let u = 1 / of_int v * 1000000;
                s2 = s1\<lparr>sample_usec := Some u\<rparr>
            in (s2\<lparr>skip_per_bit := py_int (4 / u)\<rparr>, None)))
      else (s, None))"

text \<open>\<open>runlen = (self.samplenum - self.run_start) * self.sample_usec\<close>\<close>

definition runlen :: "dmx \<Rightarrow> rat \<Rightarrow> rat" where
  "runlen s u = of_int (samplenum s - run_start s) * u"

text \<open>The branch of state \<open>FIND_BREAK\<close>; \<open>self.samplenum\<close> is already the event's.\<close>

definition find_break :: "dmx \<Rightarrow> int \<Rightarrow> dmx \<times> py_exn option" where
  "find_break s pin =
     (if run_bit s \<noteq> pin then
        (case sample_usec s of
           None \<Rightarrow> (s, Some TypeError)
         | Some u \<Rightarrow>
             (let s1 = (if 88 < runlen s u \<and> runlen s u < 180
                        then (put s (run_start s) (samplenum s) 1 Break_text)
                               \<lparr>bit_break := run_bit s, state := MARK_MAB, channel := 0\<rparr>
                        else s)
              in (s1\<lparr>run_bit := pin, run_start := samplenum s1\<rparr>, None)))
      else (s, None))"

text \<open>The branch of state \<open>MARK_MAB\<close>.\<close>

definition mark_mab :: "dmx \<Rightarrow> int \<Rightarrow> dmx \<times> py_exn option" where
  "mark_mab s pin =
     (if run_bit s \<noteq> pin then
        ((put s (run_start s) (samplenum s) 2 MAB_text)
           \<lparr>state := READ_BYTE, channel := 0, bit_no := 0, aggreg := pin,
            run_start := samplenum s\<rparr>, None)
      else (s, None))"

text \<open>
  \<open>bit_value = 0 if round(self.aggreg/self.skip_per_bit) == self.bit_break else 1\<close>,
  once the divisor is known not to be 0.
\<close>

definition bit_value_of :: "dmx \<Rightarrow> int" where
  "bit_value_of s =
     (if py_round (of_int (aggreg s) / of_int (skip_per_bit s)) = bit_break s then 0 else 1)"

text \<open>The three branches on \<open>self.bit\<close> inside the sampled window.\<close>

definition start_bit :: "dmx \<Rightarrow> int \<Rightarrow> int \<Rightarrow> dmx" where
  "start_bit s pin bit_value =
     (let s1 = put (s\<lparr>byte := 0\<rparr>) (run_start s) (samplenum s) 3 Start_bit
      in if bit_value \<noteq> 0
         then (put s1 (samplenum s1) (samplenum s1) 10 Invalid_start_bit)
                \<lparr>run_bit := pin, state := FIND_BREAK\<rparr>
         else s1)"

definition stop_bit :: "dmx \<Rightarrow> int \<Rightarrow> int \<Rightarrow> dmx" where
  "stop_bit s pin bit_value =
     (let s1 = put s (samplenum s - skip_per_bit s) (samplenum s) 4 Stop_bit
      in if bit_value \<noteq> 1
         then (put s1 (samplenum s1) (samplenum s1) 10 Invalid_stop_bit)
                \<lparr>run_bit := pin, state := FIND_BREAK\<rparr>
         else s1)"

text \<open>A shift by a negative count raises \<open>ValueError\<close>, after the annotation is put.\<close>

definition data_bit :: "dmx \<Rightarrow> int \<Rightarrow> dmx \<times> py_exn option" where
  "data_bit s bit_value =
     (let s1 = put s (samplenum s - skip_per_bit s) (samplenum s) 0 (Bit_text bit_value)
      in if bit_no s1 - 1 < 0 then (s1, Some ValueError)
         else (s1\<lparr>byte := byte s1 OR push_bit (nat (bit_no s1 - 1)) bit_value\<rparr>, None))"

text \<open>The block under \<open>if self.bit == 10\<close> (label a complete byte).\<close>

definition complete_byte :: "dmx \<Rightarrow> int \<Rightarrow> dmx" where
  "complete_byte s pin =
     (let s1 = (if channel s = 0
                then put s (run_start s) (next_sample s) 5 Start_code
                else put s (run_start s) (next_sample s) 6 (Channel_text (channel s)));
          s2 = put s1 (run_start s1 + skip_per_bit s1)
                 (next_sample s1 - 2 * skip_per_bit s1) 9 (Data_text (byte s1))
      in s2\<lparr>channel := channel s2 + 1, run_start := samplenum s2, run_bit := pin,
             state := MARK_IFT\<rparr>)"

text \<open>The body of \<open>if self.samplenum == self.next_sample\<close>.\<close>

definition sample_window :: "dmx \<Rightarrow> int \<Rightarrow> dmx \<times> py_exn option" where
  "sample_window s pin =
     (if skip_per_bit s = 0 then (s, Some ZeroDivisionError)
      else
        (let bit_value = bit_value_of s;
             s1 = s\<lparr>aggreg := pin\<rparr>;
             (s2, e) = (if bit_no s1 = 0 then (start_bit s1 pin bit_value, None)
                        else if 9 \<le> bit_no s1 then (stop_bit s1 pin bit_value, None)
                        else data_bit s1 bit_value)
         in case e of
              Some x \<Rightarrow> (s2, Some x)
            | None \<Rightarrow>
                (let s3 = (if bit_no s2 = 10 then complete_byte s2 pin else s2)
                 in (s3\<lparr>bit_no := bit_no s3 + 1\<rparr>, None))))"

text \<open>The branch of state \<open>READ_BYTE\<close>.\<close>

definition read_byte :: "dmx \<Rightarrow> int \<Rightarrow> dmx \<times> py_exn option" where
  "read_byte s pin =
     (let s1 = s\<lparr>next_sample := run_start s + (bit_no s + 1) * skip_per_bit s\<rparr>;
          s2 = s1\<lparr>aggreg := aggreg s1 + pin\<rparr>
      in if samplenum s2 = next_sample s2 then sample_window s2 pin else (s2, None))"

text \<open>The branch of state \<open>MARK_IFT\<close>.\<close>

definition mark_ift :: "dmx \<Rightarrow> int \<Rightarrow> dmx \<times> py_exn option" where
  "mark_ift s pin =
     (if run_bit s \<noteq> pin then
        (if 512 < channel s
         then ((put s (run_start s) (samplenum s) 8 Interpacket)
                 \<lparr>state := FIND_BREAK, run_bit := pin, run_start := samplenum s\<rparr>, None)
         else ((put s (run_start s) (samplenum s) 7 Interframe)
                 \<lparr>state := READ_BYTE, bit_no := 0, run_start := samplenum s\<rparr>, None))
      else (s, None))"

text \<open>
  One iteration of \<open>for (self.samplenum, pins) in data\<close>; the event is the sample number
  and \<open>pins[0]\<close>, the level of the only channel.
\<close>

definition dmx_step :: "dmx \<Rightarrow> int \<times> int \<Rightarrow> dmx \<times> py_exn option" where
  "dmx_step s ev =
     (let s1 = s\<lparr>samplenum := fst ev\<rparr>; pin = snd ev
      in case state s1 of
           FIND_BREAK \<Rightarrow> find_break s1 pin
         | MARK_MAB \<Rightarrow> mark_mab s1 pin
         | READ_BYTE \<Rightarrow> read_byte s1 pin
         | MARK_IFT \<Rightarrow> mark_ift s1 pin)"

text \<open>The loop stops at the first exception.\<close>

fun dmx_loop :: "dmx \<Rightarrow> (int \<times> int) list \<Rightarrow> dmx \<times> py_exn option" where
  "dmx_loop s [] = (s, None)"
| "dmx_loop s (ev # evs) =
     (case dmx_step s ev of
        (s1, None) \<Rightarrow> dmx_loop s1 evs
      | (s1, Some x) \<Rightarrow> (s1, Some x))"

text \<open>\<open>decode(self, ss, es, data)\<close>; \<open>ss\<close> and \<open>es\<close> are not used by the body.\<close>

definition dmx_decode :: "dmx \<Rightarrow> int \<Rightarrow> int \<Rightarrow> (int \<times> int) list \<Rightarrow> dmx \<times> py_exn option" where
  "dmx_decode s ss es data =
     (if samplerate s = None then (s, Some NotConfigured) else dmx_loop s data)"


section \<open>Concrete inputs of the DMX512 decoder\<close>

text \<open>The DMX512 decoder after \<open>metadata(SRD_CONF_SAMPLERATE, 1000000)\<close>.\<close>

definition dmx_1mhz :: dmx where
  "dmx_1mhz = fst (metadata dmx_init SRD_CONF_SAMPLERATE 1000000)"

text \<open>The events of the samples \<open>i\<close> to \<open>k - 1\<close> of a signal, given by its level at each sample.\<close>

definition stream_of :: "(nat \<Rightarrow> int) \<Rightarrow> nat \<Rightarrow> nat \<Rightarrow> (int \<times> int) list" where
  "stream_of lvl i k = map (\<lambda>n. (int n, lvl n)) [i..<k]"

text \<open>A break of 100 microseconds at 1 MHz and a mark after break of 12, followed by a start
  bit that is high from its second sample on; then a pause and a second break of 100
  microseconds.\<close>

definition frame_high_start :: "nat \<Rightarrow> int" where
  "frame_high_start n =
     (if n < 10 then 1 else if n < 110 then 0 else if n < 122 then 1 else if n < 123 then 0
      else if n < 140 then 1 else if n < 240 then 0 else 1)"

text \<open>A break, a mark after break, a start bit, eight data bits 0 and a first stop bit that is
  high; the second stop bit is low.\<close>

definition frame_low_stop :: "nat \<Rightarrow> int" where
  "frame_low_stop n =
     (if n < 10 then 1 else if n < 110 then 0 else if n < 122 then 1 else if n < 158 then 0
      else if n < 162 then 1 else 0)"

text \<open>The same frame with the first stop bit low.\<close>

definition frame_low_first_stop :: "nat \<Rightarrow> int" where
  "frame_low_first_stop n =
     (if n < 10 then 1 else if n < 110 then 0 else if n < 122 then 1 else 0)"


text \<open>The decoder in the gap after the byte of channel 512.\<close>

definition dmx_late_frame :: dmx where
  "dmx_late_frame =
     dmx_1mhz\<lparr>samplenum := 22699, run_start := 22696, run_bit := 1, state := MARK_IFT,
              channel := 513, bit_no := 11, next_sample := 22696\<rparr>"

text \<open>The decoder before the event at which the start bit is sampled.\<close>

definition dmx_before_start :: dmx where
  "dmx_before_start = fst (dmx_loop dmx_1mhz (stream_of frame_high_start 0 126))"

text \<open>The decoder before the event at which the second stop bit is sampled.\<close>

definition dmx_before_stop2 :: dmx where
  "dmx_before_stop2 = fst (dmx_loop dmx_1mhz (stream_of frame_low_stop 0 166))"

subsection \<open>Streams in sample order\<close>




section \<open>SPI flash decoder (decoders/spiflash/pd.py)\<close>

subsection \<open>Dual I/O bytes\<close>

text \<open>\<open>combine_byte(even, odd)\<close>, the inner function of \<open>decode_dual_bytes\<close>: the loop over
  \<open>range(4)\<close> is a fold over the bit numbers, \<open>1 << bit\<close> is \<open>push_bit bit 1\<close>.\<close>

definition combine_byte :: "int \<Rightarrow> int \<Rightarrow> int" where
  "combine_byte evens odds =
     fold (\<lambda>b result.
             (let r1 = (if evens AND push_bit b 1 \<noteq> 0 then result OR push_bit (b * 2) 1
                        else result)
              in if odds AND push_bit b 1 \<noteq> 0 then r1 OR push_bit (b * 2 + 1) 1 else r1))
       [0..<4] 0"

text \<open>\<open>sio0 >> 4\<close> on an unbounded integer is \<open>drop_bit 4\<close>.\<close>

definition decode_dual_bytes :: "int \<Rightarrow> int \<Rightarrow> int \<times> int" where
  "decode_dual_bytes sio0 sio1 =
     (combine_byte (drop_bit 4 sio0) (drop_bit 4 sio1), combine_byte sio0 sio1)"

text \<open>The decoder has no inverse of \<open>decode_dual_bytes\<close>.  The re-splitting that the
  specification describes is written after its words: the even-indexed bits of the two
  reconstructed bytes go back to the primary byte and the odd-indexed bits to the
  secondary byte, the first reconstructed byte giving the high nibbles.\<close>

definition even_bits :: "int \<Rightarrow> int" where
  "even_bits x = fold (\<lambda>b r. if bit x (2 * b) then r OR push_bit b 1 else r) [0..<4] 0"

definition odd_bits :: "int \<Rightarrow> int" where
  "odd_bits x = fold (\<lambda>b r. if bit x (2 * b + 1) then r OR push_bit b 1 else r) [0..<4] 0"

definition resplit_dual :: "int \<times> int \<Rightarrow> int \<times> int" where
  "resplit_dual p =
     (push_bit 4 (even_bits (fst p)) OR even_bits (snd p),
      push_bit 4 (odd_bits (fst p)) OR odd_bits (snd p))"

subsection \<open>Annotations and the decoder object\<close>

text \<open>The text of an annotation is the format string of the source, named by a constructor,
  with the values that are formatted into it: \<open>Command n\<close> is \<open>'Command: %s' % n\<close>,
  \<open>Status_text d\<close> is \<open>decode_status_reg(d)\<close>, \<open>Dummy_byte\<close> and \<open>Dummy_byte_str\<close>
  are the two formats \<open>'Dummy byte: 0x%02x'\<close> and \<open>'Dummy byte: %s'\<close>, and
  \<open>Data_block label n t\<close> is \<open>'%s %d bytes: %s' % (label, len(self.data), s)\<close> with
  \<open>s\<close> the bytes in hexadecimal or as characters.\<close>

datatype block_text = Hex_text "int list" | Ascii_text "int list"

datatype spi_text =
    Command string
  | Manufacturer_ID int
  | Memory_type int
  | Device_ID int
  | Device string
  | Status_register int
  | Status_text int
  | Read_address int
  | AD int int
  | Dummy_byte int
  | Dummy_byte_str int
  | Erase_sector int
  | Invalid_sector_address
  | Page_address int
  | Master_wants string
  | ID_text string
  | Data_block string nat block_text
  | Unknown_command int

type_synonym spi_ann = "int \<times> int \<times> nat \<times> spi_text"

text \<open>The methods \<open>handle_<shortname>\<close> of the decoder.\<close>

datatype handler =
    Handle_wren | Handle_wrdi | Handle_rdid | Handle_rdsr | Handle_wrsr | Handle_read
  | Handle_fast_read | Handle_2read | Handle_se | Handle_be | Handle_ce | Handle_ce2
  | Handle_pp | Handle_cp | Handle_dp | Handle_rdp_res | Handle_rems | Handle_rems2
  | Handle_enso | Handle_exso | Handle_rdscur | Handle_wrscur | Handle_esry | Handle_dsry

text \<open>The decoder object.  The module \<open>lists.py\<close> with the tables \<open>cmds\<close> (command
  byte to short and long name), \<open>device_name\<close> and \<open>chips\<close> is not part of the sources
  at hand, so the two tables that the decoding reads are fields that the constructor
  receives; they are dictionaries, kept as association lists in the order of their
  entries.  \<open>format_opt\<close> is \<open>self.options['format']\<close>.  \<open>state_spi\<close> is the attribute
  \<open>self.state\<close>, the active command or \<open>None\<close>; \<open>on_end_transaction\<close> is \<open>None\<close> or
  the callback \<open>lambda: self.output_data_block(label)\<close>, kept as its label;
  \<open>out_spi\<close> holds the annotations put so far.  The attributes that \<open>__init__\<close> does
  not create (\<open>ss\<close>, \<open>es\<close>, \<open>ss_block\<close>, \<open>es_block\<close>, \<open>device_id\<close>, \<open>ids\<close>,
  \<open>manufacturer_id_first\<close>) start at 0, empty and false; each is assigned before it is
  read, the handlers being entered with \<open>cmdstate\<close> 1.  \<open>start\<close> registers the output
  and looks the chip up in \<open>chips\<close>; the result is not read by any method.\<close>

record spi =
  cmds :: "(int \<times> string \<times> string) list"
  device_name :: "(int \<times> string) list"
  format_opt :: string
  cmd_handlers :: "(int \<times> handler) list"
  on_end_transaction :: "string option"
  state_spi :: "int option"
  cmdstate :: int
  addr :: int
  data :: "int list"
  ss :: int
  es :: int
  ss_block :: int
  es_block :: int
  device_id :: int
  ids :: "int list"
  manufacturer_id_first :: bool
  out_spi :: "spi_ann list"

text \<open>\<open>str.lower()\<close> on the letters of ASCII.\<close>

definition lower_char :: "char \<Rightarrow> char" where
  "lower_char c =
     (case map_of (zip ''ABCDEFGHIJKLMNOPQRSTUVWXYZ'' ''abcdefghijklmnopqrstuvwxyz'') c of
        None \<Rightarrow> c
      | Some d \<Rightarrow> d)"

text \<open>\<open>cmds[cmd][0].lower().replace('/', '_')\<close>\<close>

definition handler_suffix :: "string \<Rightarrow> string" where
  "handler_suffix shortname =
     map (\<lambda>c. if c = CHR ''/'' then CHR ''_'' else c) (map lower_char shortname)"

text \<open>\<open>getattr(self, 'handle_%s' % s)\<close>: the methods that the class defines.\<close>

definition handler_named :: "string \<Rightarrow> handler option" where
  "handler_named =
     map_of
       [(''wren'', Handle_wren), (''wrdi'', Handle_wrdi), (''rdid'', Handle_rdid),
        (''rdsr'', Handle_rdsr), (''wrsr'', Handle_wrsr), (''read'', Handle_read),
        (''fast_read'', Handle_fast_read), (''2read'', Handle_2read), (''se'', Handle_se),
        (''be'', Handle_be), (''ce'', Handle_ce), (''ce2'', Handle_ce2), (''pp'', Handle_pp),
        (''cp'', Handle_cp), (''dp'', Handle_dp), (''rdp_res'', Handle_rdp_res),
        (''rems'', Handle_rems), (''rems2'', Handle_rems2), (''enso'', Handle_enso),
        (''exso'', Handle_exso), (''rdscur'', Handle_rdscur), (''wrscur'', Handle_wrscur),
        (''esry'', Handle_esry), (''dsry'', Handle_dsry)]"

text \<open>The dictionary \<open>cmd_handlers\<close>; a command without a method raises in \<open>getattr\<close>.\<close>

fun build_handlers :: "(int \<times> string \<times> string) list \<Rightarrow> (int \<times> handler) list option" where
  "build_handlers [] = Some []"
| "build_handlers ((cmd, shortname, longname) # rest) =
     (case handler_named (handler_suffix shortname) of
        None \<Rightarrow> None
      | Some h \<Rightarrow> map_option ((#) (cmd, h)) (build_handlers rest))"

text \<open>\<open>self.put\<close>, \<open>putx\<close> and \<open>putb\<close>.\<close>

definition spi_put :: "spi \<Rightarrow> int \<Rightarrow> int \<Rightarrow> nat \<Rightarrow> spi_text \<Rightarrow> spi" where
  "spi_put s a b cls txt = s\<lparr>out_spi := out_spi s @ [(a, b, cls, txt)]\<rparr>"

definition putx :: "spi \<Rightarrow> nat \<Rightarrow> spi_text \<Rightarrow> spi" where
  "putx s cls txt = spi_put s (ss s) (es s) cls txt"

definition putb :: "spi \<Rightarrow> nat \<Rightarrow> spi_text \<Rightarrow> spi" where
  "putb s cls txt = spi_put s (ss_block s) (es_block s) cls txt"

text \<open>\<open>output_data_block(label)\<close>\<close>

definition output_data_block :: "spi \<Rightarrow> string \<Rightarrow> spi" where
  "output_data_block s label =
     (let s1 = s\<lparr>es_block := es s\<rparr>;
          t = (if format_opt s1 = ''hex'' then Hex_text (data s1) else Ascii_text (data s1))
      in putb s1 25 (Data_block label (length (data s1)) t))"

text \<open>\<open>end_current_transaction\<close>\<close>

definition end_current_transaction :: "spi \<Rightarrow> spi" where
  "end_current_transaction s =
     (let s1 = (case on_end_transaction s of
                  None \<Rightarrow> s
                | Some label \<Rightarrow> (output_data_block s label)\<lparr>on_end_transaction := None\<rparr>)
      in s1\<lparr>state_spi := None, cmdstate := 1, addr := 0, data := []\<rparr>)"

text \<open>\<open>__init__\<close>: \<open>cmdstate\<close>, \<open>addr\<close> and \<open>data\<close> are created by
  \<open>end_current_transaction\<close>.\<close>

definition spi_init ::
  "(int \<times> string \<times> string) list \<Rightarrow> (int \<times> string) list \<Rightarrow> string \<Rightarrow> py_exn + spi" where
  "spi_init cs names fmt =
     (case build_handlers cs of
        None \<Rightarrow> Inl AttributeError
      | Some hs \<Rightarrow>
          Inr (end_current_transaction
                 \<lparr> cmds = cs, device_name = names, format_opt = fmt, cmd_handlers = hs,
                   on_end_transaction = None, state_spi = None, cmdstate = 0, addr = 0,
                   data = [], ss = 0, es = 0, ss_block = 0, es_block = 0, device_id = 0,
                   ids = [], manufacturer_id_first = False, out_spi = [] \<rparr>))"

subsection \<open>The command handlers\<close>

text \<open>Sequencing of two parts of a method, the second of which runs unless the first raised.\<close>

definition then_do ::
  "spi \<times> py_exn option \<Rightarrow> (spi \<Rightarrow> spi \<times> py_exn option) \<Rightarrow> spi \<times> py_exn option" where
  "then_do r f = (case r of (s, None) \<Rightarrow> f s | (s, Some x) \<Rightarrow> (s, Some x))"

text \<open>\<open>cmds[self.state][1]\<close>, which raises \<open>KeyError\<close> when \<open>self.state\<close> is not a key.\<close>

definition cmd_longname :: "spi \<Rightarrow> string option" where
  "cmd_longname s =
     (case state_spi s of
        None \<Rightarrow> None
      | Some c \<Rightarrow> map_option snd (map_of (cmds s) c))"

definition putx_command :: "spi \<Rightarrow> nat \<Rightarrow> spi \<times> py_exn option" where
  "putx_command s cls =
     (case cmd_longname s of
        None \<Rightarrow> (s, Some KeyError)
      | Some n \<Rightarrow> (putx s cls (Command n), None))"

text \<open>\<open>self.addr |= (mosi << ((4 - self.cmdstate) * 8))\<close>, used for \<open>cmdstate\<close> 2, 3, 4.\<close>

definition add_addr_byte :: "spi \<Rightarrow> int \<Rightarrow> spi" where
  "add_addr_byte s mosi = s\<lparr>addr := addr s OR push_bit (nat ((4 - cmdstate s) * 8)) mosi\<rparr>"

definition handle_wren :: "spi \<Rightarrow> int \<Rightarrow> int \<Rightarrow> spi \<times> py_exn option" where
  "handle_wren s mosi miso =
     then_do (putx_command s 0) (\<lambda>s1. (s1\<lparr>state_spi := None\<rparr>, None))"

definition handle_wrdi :: "spi \<Rightarrow> int \<Rightarrow> int \<Rightarrow> spi \<times> py_exn option" where
  "handle_wrdi s mosi miso = (s, None)"

definition handle_rdid :: "spi \<Rightarrow> int \<Rightarrow> int \<Rightarrow> spi \<times> py_exn option" where
  "handle_rdid s mosi miso =
     then_do
       (if cmdstate s = 1 then putx_command (s\<lparr>ss_block := ss s\<rparr>) 2
        else if cmdstate s = 2 then (putx s 2 (Manufacturer_ID miso), None)
        else if cmdstate s = 3 then (putx s 2 (Memory_type miso), None)
        else if cmdstate s = 4 then (putx (s\<lparr>device_id := miso\<rparr>) 2 (Device_ID miso), None)
        else (s, None))
       (\<lambda>s1. if cmdstate s1 = 4 then
                (case map_of (device_name s1) (device_id s1) of
                   None \<Rightarrow> (s1, Some KeyError)
                 | Some n \<Rightarrow>
                     ((spi_put s1 (ss_block s1) (es s1) 0 (Device n))\<lparr>state_spi := None\<rparr>, None))
              else (s1\<lparr>cmdstate := cmdstate s1 + 1\<rparr>, None))"

definition handle_rdsr :: "spi \<Rightarrow> int \<Rightarrow> int \<Rightarrow> spi \<times> py_exn option" where
  "handle_rdsr s mosi miso =
     then_do
       (if cmdstate s = 1 then putx_command s 3
        else if 2 \<le> cmdstate s
        then (putx (putx s 24 (Status_register miso)) 25 (Status_text miso), None)
        else (s, None))
       (\<lambda>s1. (s1\<lparr>cmdstate := cmdstate s1 + 1\<rparr>, None))"

definition handle_read :: "spi \<Rightarrow> int \<Rightarrow> int \<Rightarrow> spi \<times> py_exn option" where
  "handle_read s mosi miso =
     then_do
       (if cmdstate s = 1 then putx_command s 5
        else if cmdstate s \<in> {2, 3, 4} then
          (let s1 = add_addr_byte s mosi
           in if cmdstate s1 = 4
              then ((putx s1 24 (Read_address (addr s1)))\<lparr>addr := 0\<rparr>, None)
              else (s1, None))
        else if 5 \<le> cmdstate s then
          (let s1 = (if cmdstate s = 5
                     then s\<lparr>ss_block := ss s, on_end_transaction := Some ''Read''\<rparr>
                     else s)
           in (s1\<lparr>data := data s1 @ [miso]\<rparr>, None))
        else (s, None))
       (\<lambda>s1. (s1\<lparr>cmdstate := cmdstate s1 + 1\<rparr>, None))"

definition handle_fast_read :: "spi \<Rightarrow> int \<Rightarrow> int \<Rightarrow> spi \<times> py_exn option" where
  "handle_fast_read s mosi miso =
     then_do
       (if cmdstate s = 1 then putx_command s 5
        else if cmdstate s \<in> {2, 3, 4} then
          (let s1 = putx s 24 (AD (cmdstate s - 1) mosi);
               s2 = (if cmdstate s1 = 2 then s1\<lparr>ss_block := ss s1\<rparr> else s1)
           in (add_addr_byte s2 mosi, None))
        else if cmdstate s = 5 then
          (let s1 = putx s 24 (Dummy_byte mosi);
               s2 = s1\<lparr>es_block := es s1\<rparr>
           in ((putb s2 5 (Read_address (addr s2)))\<lparr>addr := 0\<rparr>, None))
        else if 6 \<le> cmdstate s then
          (let s1 = (if cmdstate s = 6
                     then s\<lparr>ss_block := ss s, on_end_transaction := Some ''Read''\<rparr>
                     else s)
           in (s1\<lparr>data := data s1 @ [miso]\<rparr>, None))
        else (s, None))
       (\<lambda>s1. (s1\<lparr>cmdstate := cmdstate s1 + 1\<rparr>, None))"

definition handle_2read :: "spi \<Rightarrow> int \<Rightarrow> int \<Rightarrow> spi \<times> py_exn option" where
  "handle_2read s mosi miso =
     (if cmdstate s = 1
      then then_do (putx_command s 5) (\<lambda>s1. (s1\<lparr>cmdstate := 2\<rparr>, None))
      else
        (let (a, b) = decode_dual_bytes mosi miso
         in then_do (handle_fast_read s a a) (\<lambda>s1. handle_fast_read s1 b b)))"

definition handle_se :: "spi \<Rightarrow> int \<Rightarrow> int \<Rightarrow> spi \<times> py_exn option" where
  "handle_se s mosi miso =
     then_do
       (if cmdstate s = 1 then putx_command (s\<lparr>addr := 0, ss_block := ss s\<rparr>) 8
        else if cmdstate s \<in> {2, 3, 4} then (add_addr_byte s mosi, None)
        else (s, None))
       (\<lambda>s1. if cmdstate s1 = 4 then
                (let s2 = spi_put s1 (ss_block s1) (es s1) 24 (Erase_sector (addr s1));
                     s3 = (if addr s2 mod 4096 \<noteq> 0
                           then spi_put s2 (ss_block s2) (es s2) 101 Invalid_sector_address
                           else s2)
                 in (s3\<lparr>state_spi := None\<rparr>, None))
              else (s1\<lparr>cmdstate := cmdstate s1 + 1\<rparr>, None))"

definition handle_pp :: "spi \<Rightarrow> int \<Rightarrow> int \<Rightarrow> spi \<times> py_exn option" where
  "handle_pp s mosi miso =
     then_do
       (if cmdstate s = 1 then putx_command s 12
        else if cmdstate s \<in> {2, 3, 4} then
          (let s1 = add_addr_byte s mosi
           in if cmdstate s1 = 4
              then ((putx s1 24 (Page_address (addr s1)))\<lparr>addr := 0\<rparr>, None)
              else (s1, None))
        else if 5 \<le> cmdstate s then
          (let s1 = (if cmdstate s = 5
                     then s\<lparr>ss_block := ss s, on_end_transaction := Some ''Page data''\<rparr>
                     else s)
           in (s1\<lparr>data := data s1 @ [mosi]\<rparr>, None))
        else (s, None))
       (\<lambda>s1. (s1\<lparr>cmdstate := cmdstate s1 + 1\<rparr>, None))"

text \<open>In \<open>handle_rems\<close>, \<open>self.ids[1]\<close> and \<open>self.ids[0]\<close> raise \<open>IndexError\<close> on a list
  that is too short.\<close>

definition handle_rems :: "spi \<Rightarrow> int \<Rightarrow> int \<Rightarrow> spi \<times> py_exn option" where
  "handle_rems s mosi miso =
     then_do
       (if cmdstate s = 1 then putx_command (s\<lparr>ss_block := ss s\<rparr>) 16
        else if cmdstate s \<in> {2, 3} then (putx s 24 (Dummy_byte_str mosi), None)
        else if cmdstate s = 4 then
          (putx (s\<lparr>manufacturer_id_first := (mosi = 0)\<rparr>) 24
             (Master_wants (if mosi = 0 then ''manufacturer'' else ''device'')), None)
        else if cmdstate s = 5 then
          (putx (s\<lparr>ids := [miso]\<rparr>) 24
             (ID_text (if manufacturer_id_first s then ''Manufacturer'' else ''Device'')), None)
        else if cmdstate s = 6 then
          (putx (s\<lparr>ids := ids s @ [miso]\<rparr>) 24
             (ID_text (if manufacturer_id_first s then ''Manufacturer'' else ''Device'')), None)
        else (s, None))
       (\<lambda>s1. if cmdstate s1 = 6 then
                (if manufacturer_id_first s1 \<and> length (ids s1) < 2 \<or> ids s1 = []
                 then (s1, Some IndexError)
                 else
                   (case map_of (device_name s1)
                           (if manufacturer_id_first s1 then ids s1 ! 1 else ids s1 ! 0) of
                      None \<Rightarrow> (s1, Some KeyError)
                    | Some n \<Rightarrow> ((putx s1 24 (Device n))\<lparr>state_spi := None\<rparr>, None)))
              else (s1\<lparr>cmdstate := cmdstate s1 + 1\<rparr>, None))"

text \<open>The call of a handler.  The methods that are not listed consist of \<open>pass\<close>.\<close>

fun run_handler :: "handler \<Rightarrow> spi \<Rightarrow> int \<Rightarrow> int \<Rightarrow> spi \<times> py_exn option" where
  "run_handler Handle_wren s mosi miso = handle_wren s mosi miso"
| "run_handler Handle_wrdi s mosi miso = handle_wrdi s mosi miso"
| "run_handler Handle_rdid s mosi miso = handle_rdid s mosi miso"
| "run_handler Handle_rdsr s mosi miso = handle_rdsr s mosi miso"
| "run_handler Handle_read s mosi miso = handle_read s mosi miso"
| "run_handler Handle_fast_read s mosi miso = handle_fast_read s mosi miso"
| "run_handler Handle_2read s mosi miso = handle_2read s mosi miso"
| "run_handler Handle_se s mosi miso = handle_se s mosi miso"
| "run_handler Handle_pp s mosi miso = handle_pp s mosi miso"
| "run_handler Handle_rems s mosi miso = handle_rems s mosi miso"
| "run_handler h s mosi miso = (s, None)"

subsection \<open>Decoding\<close>

text \<open>\<open>decode(self, ss, es, data)\<close> for one packet \<open>(ptype, mosi, miso)\<close>.  The \<open>try\<close>
  catches the \<open>KeyError\<close> of the lookup in \<open>cmd_handlers\<close> and any \<open>KeyError\<close> that the
  handler raises; other exceptions leave \<open>decode\<close>.\<close>

definition spi_decode :: "spi \<Rightarrow> int \<Rightarrow> int \<Rightarrow> string \<times> int \<times> int \<Rightarrow> spi \<times> py_exn option" where
  "spi_decode s ss' es' packet =
     (let ptype = fst packet; mosi = fst (snd packet); miso = snd (snd packet);
          s1 = s\<lparr>ss := ss', es := es'\<rparr>;
          s2 = (if ptype = ''CS-CHANGE'' then end_current_transaction s1 else s1)
      in if ptype \<noteq> ''DATA'' then (s2, None)
         else
           (let s3 = (if state_spi s2 = None then s2\<lparr>state_spi := Some mosi, cmdstate := 1\<rparr>
                      else s2);
                r = (case state_spi s3 of
                       None \<Rightarrow> (s3, Some KeyError)
                     | Some c \<Rightarrow>
                         (case map_of (cmd_handlers s3) c of
                            None \<Rightarrow> (s3, Some KeyError)
                          | Some h \<Rightarrow> run_handler h s3 mosi miso))
            in case r of
                 (s4, Some KeyError) \<Rightarrow>
                   ((putx s4 24 (Unknown_command mosi))\<lparr>state_spi := None\<rparr>, None)
               | _ \<Rightarrow> r))"

text \<open>The calls of \<open>decode\<close> for a list of packets, each with its \<open>ss\<close> and \<open>es\<close>.\<close>

fun spi_decode_all ::
  "spi \<Rightarrow> (int \<times> int \<times> string \<times> int \<times> int) list \<Rightarrow> spi \<times> py_exn option" where
  "spi_decode_all s [] = (s, None)"
| "spi_decode_all s ((a, b, packet) # rest) =
     (case spi_decode s a b packet of
        (s1, None) \<Rightarrow> spi_decode_all s1 rest
      | (s1, Some x) \<Rightarrow> (s1, Some x))"

text \<open>Data packets from their sample range and the two bytes.\<close>

definition data_packets :: "(int \<times> int \<times> int \<times> int) list \<Rightarrow> (int \<times> int \<times> string \<times> int \<times> int) list" where
  "data_packets bs = map (\<lambda>(a, b, mosi, miso). (a, b, ''DATA'', mosi, miso)) bs"

text \<open>An annotation that is the dump of a data block.\<close>

definition is_data_block :: "spi_ann \<Rightarrow> bool" where
  "is_data_block a = (case snd (snd (snd a)) of Data_block l n t \<Rightarrow> True | _ \<Rightarrow> False)"

text \<open>The class attributes \<open>annotations\<close> (\<open>cmd_annotation_classes()\<close> followed by the
  three shared classes) and \<open>annotation_rows\<close>; \<open>tuple(range(23 + 1))\<close> is
  \<open>[0..<23 + 1]\<close>.\<close>

definition annotations :: "spi \<Rightarrow> (string \<times> string) list" where
  "annotations s =
     map (\<lambda>(c, shortname, longname). (map lower_char shortname, longname)) (cmds s)
     @ [(''bits'', ''Bits''), (''bits2'', ''Bits2''), (''warnings'', ''Warnings'')]"

definition annotation_rows :: "(string \<times> string \<times> nat list) list" where
  "annotation_rows =
     [(''bits'', ''Bits'', [24, 25]), (''commands'', ''Commands'', [0..<23 + 1]),
      (''warnings'', ''Warnings'', [26])]"

subsection \<open>Concrete tables and sessions\<close>

text \<open>A command table and a device table in the layout of \<open>lists.py\<close>: one command for
  each of the 24 handler methods, the number of command classes that
  \<open>annotation_rows\<close> counts.\<close>

definition example_cmds :: "(int \<times> string \<times> string) list" where
  "example_cmds =
     [(0x06, ''WREN'', ''Write enable''),
      (0x04, ''WRDI'', ''Write disable''),
      (0x9f, ''RDID'', ''Read identification''),
      (0x05, ''RDSR'', ''Read status register''),
      (0x01, ''WRSR'', ''Write status register''),
      (0x03, ''READ'', ''Read data''),
      (0x0b, ''FAST/READ'', ''Fast read data''),
      (0xbb, ''2READ'', ''2x I/O read''),
      (0x20, ''SE'', ''Sector erase''),
      (0xd8, ''BE'', ''Block erase''),
      (0x60, ''CE'', ''Chip erase''),
      (0xc7, ''CE2'', ''Chip erase''),
      (0x02, ''PP'', ''Page program''),
      (0xad, ''CP'', ''Continuously program mode''),
      (0xb9, ''DP'', ''Deep power down''),
      (0xab, ''RDP/RES'', ''Release from deep powerdown / Read electronic ID''),
      (0x90, ''REMS'', ''Read electronic manufacturer & device ID''),
      (0xef, ''REMS2'', ''Read ID for 2x I/O mode''),
      (0xb1, ''ENSO'', ''Enter secured OTP''),
      (0xc1, ''EXSO'', ''Exit secured OTP''),
      (0x2b, ''RDSCUR'', ''Read security register''),
      (0x2f, ''WRSCUR'', ''Write security register''),
      (0x68, ''ESRY'', ''Enable SO to output RY/BY#''),
      (0x80, ''DSRY'', ''Disable SO to output RY/BY#'')]"

definition example_names :: "(int \<times> string) list" where
  "example_names = [(0x14, ''MX25L1605D''), (0x15, ''MX25L3205D''), (0x16, ''MX25L6405D'')]"

text \<open>The decoder constructed over these tables with the format \<open>hex\<close>.\<close>

definition example_spi :: spi where
  "example_spi = (case spi_init example_cmds example_names ''hex'' of Inr s \<Rightarrow> s)"

text \<open>The decoder inside a page-program session, after the command byte, three address bytes
  and two data bytes.\<close>

definition spi_pp_open :: spi where
  "spi_pp_open =
     fst (spi_decode_all example_spi
            (data_packets [(0, 8, 0x02, 0), (8, 16, 1, 0), (16, 24, 2, 0), (24, 32, 3, 0),
                           (32, 40, 0x41, 0), (40, 48, 0x42, 0)]))"

section \<open>DMX512: properties\<close>

lemmas dmx_branch_defs = find_break_def mark_mab_def read_byte_def mark_ift_def
  sample_window_def start_bit_def stop_bit_def data_bit_def complete_byte_def put_def
  runlen_def bit_value_of_def

lemma dmx_1mhz_simps:
  "dmx_1mhz = dmx_init\<lparr>samplerate := Some 1000000, sample_usec := Some 1, skip_per_bit := 4\<rparr>"
  by (simp add: dmx_1mhz_def metadata_def py_int_def)

lemma start_bit_fields [simp]:
  "channel (start_bit s pin v) = channel s"
  "bit_no (start_bit s pin v) = bit_no s"
  "skip_per_bit (start_bit s pin v) = skip_per_bit s"
  "run_start (start_bit s pin v) = run_start s"
  "samplenum (start_bit s pin v) = samplenum s"
  "next_sample (start_bit s pin v) = next_sample s"
  "sample_usec (start_bit s pin v) = sample_usec s"
  "samplerate (start_bit s pin v) = samplerate s"
  by (simp_all add: start_bit_def put_def Let_def)

lemma stop_bit_fields [simp]:
  "channel (stop_bit s pin v) = channel s"
  "bit_no (stop_bit s pin v) = bit_no s"
  "skip_per_bit (stop_bit s pin v) = skip_per_bit s"
  "run_start (stop_bit s pin v) = run_start s"
  "samplenum (stop_bit s pin v) = samplenum s"
  "next_sample (stop_bit s pin v) = next_sample s"
  "sample_usec (stop_bit s pin v) = sample_usec s"
  "samplerate (stop_bit s pin v) = samplerate s"
  by (simp_all add: stop_bit_def put_def Let_def)

lemma data_bit_fields [simp]:
  "channel (fst (data_bit s v)) = channel s"
  "bit_no (fst (data_bit s v)) = bit_no s"
  "skip_per_bit (fst (data_bit s v)) = skip_per_bit s"
  "run_start (fst (data_bit s v)) = run_start s"
  "samplenum (fst (data_bit s v)) = samplenum s"
  "next_sample (fst (data_bit s v)) = next_sample s"
  "sample_usec (fst (data_bit s v)) = sample_usec s"
  "samplerate (fst (data_bit s v)) = samplerate s"
  "state (fst (data_bit s v)) = state s"
  by (simp_all add: data_bit_def put_def Let_def)

lemma complete_byte_fields [simp]:
  "channel (complete_byte s pin) = channel s + 1"
  "bit_no (complete_byte s pin) = bit_no s"
  "skip_per_bit (complete_byte s pin) = skip_per_bit s"
  "run_start (complete_byte s pin) = samplenum s"
  "samplenum (complete_byte s pin) = samplenum s"
  "sample_usec (complete_byte s pin) = sample_usec s"
  "samplerate (complete_byte s pin) = samplerate s"
  "state (complete_byte s pin) = MARK_IFT"
  by (simp_all add: complete_byte_def put_def Let_def)

lemma sample_window_channel:
  "channel (fst (sample_window s pin)) =
     (if skip_per_bit s \<noteq> 0 \<and> bit_no s = 10 then channel s + 1 else channel s)"
  by (simp add: sample_window_def Let_def split_beta split: option.splits)

lemma sample_window_complete:
  "skip_per_bit s \<noteq> 0 \<Longrightarrow> bit_no s = 10 \<Longrightarrow>
   state (fst (sample_window s pin)) = MARK_IFT \<and> snd (sample_window s pin) = None"
  by (simp add: sample_window_def Let_def split_beta split: option.splits)

lemma read_byte_channel:
  "channel (fst (read_byte s pin)) =
     (if samplenum s = run_start s + (bit_no s + 1) * skip_per_bit s \<and> skip_per_bit s \<noteq> 0
           \<and> bit_no s = 10
      then channel s + 1 else channel s)"
  by (simp add: read_byte_def sample_window_channel Let_def)

lemma read_byte_complete:
  "samplenum s = run_start s + (bit_no s + 1) * skip_per_bit s \<Longrightarrow> skip_per_bit s \<noteq> 0 \<Longrightarrow>
   bit_no s = 10 \<Longrightarrow>
   state (fst (read_byte s pin)) = MARK_IFT \<and> snd (read_byte s pin) = None"
  by (simp add: read_byte_def sample_window_complete Let_def)

lemma find_break_channel:
  "sample_usec s = Some u \<Longrightarrow>
   channel (fst (find_break s pin)) =
     (if run_bit s \<noteq> pin \<and> 88 < of_int (samplenum s - run_start s) * u
           \<and> of_int (samplenum s - run_start s) * u < 180
      then 0 else channel s)"
  by (simp add: find_break_def put_def runlen_def Let_def)

lemma mark_ift_eq:
  "mark_ift s pin =
     (if run_bit s = pin then s
      else if 512 < channel s
      then s\<lparr>out_ann := out_ann s @ [(run_start s, samplenum s, 8, Interpacket)],
             state := FIND_BREAK, run_bit := pin, run_start := samplenum s\<rparr>
      else s\<lparr>out_ann := out_ann s @ [(run_start s, samplenum s, 7, Interframe)],
             state := READ_BYTE, bit_no := 0, run_start := samplenum s\<rparr>, None)"
  by (simp add: mark_ift_def put_def)













lemma sample_window_skip [simp]: "skip_per_bit (fst (sample_window s pin)) = skip_per_bit s"
  by (simp add: sample_window_def Let_def split_beta split: option.splits)









lemma dmx_before_start_eq:
  "dmx_before_start =
     \<lparr>samplerate = Some 1000000, sample_usec = Some 1, samplenum = 125,
       run_start = 122, run_bit = 1, state = READ_BYTE, skip_per_bit = 4,
       bit_break = 0, channel = 0, bit_no = 0, aggreg = 3, byte = 0,
       next_sample = 126,
       out_ann = [(10, 110, 1, Break_text), (110, 122, 2, MAB_text)]\<rparr>"
  by code_simp

lemma dmx_before_stop2_eq:
  "dmx_before_stop2 =
     \<lparr>samplerate = Some 1000000, sample_usec = Some 1, samplenum = 165,
       run_start = 122, run_bit = 1, state = READ_BYTE, skip_per_bit = 4,
       bit_break = 0, channel = 0, bit_no = 10, aggreg = 0, byte = 0,
       next_sample = 166,
       out_ann =
         [(10, 110, 1, Break_text), (110, 122, 2, MAB_text),
          (122, 126, 3, Start_bit), (126, 130, 0, Bit_text 0),
          (130, 134, 0, Bit_text 0), (134, 138, 0, Bit_text 0),
          (138, 142, 0, Bit_text 0), (142, 146, 0, Bit_text 0),
          (146, 150, 0, Bit_text 0), (150, 154, 0, Bit_text 0),
          (154, 158, 0, Bit_text 0), (158, 162, 4, Stop_bit)]\<rparr>"
  by code_simp

lemma py_round_1 [simp]: "py_round 1 = 1" "py_round 0 = 0"
  by (simp_all add: py_round_def)

text \<open>
  The step that samples a stop bit of value 0, for both stop bits: at bit index 10 the block
  that labels a complete byte runs after the branch of the stop bit.
\<close>

lemma invalid_stop_bit_step:
  assumes "state s = READ_BYTE" and "9 \<le> bit_no s" and "skip_per_bit s \<noteq> 0"
    and "n = run_start s + (bit_no s + 1) * skip_per_bit s"
    and "py_round (of_int (aggreg s + pin) / of_int (skip_per_bit s)) = bit_break s"
  shows "dmx_step s (n, pin) =
           (if bit_no s = 10
            then s\<lparr>samplenum := n, next_sample := n, aggreg := pin,
                   out_ann := out_ann s @
                     [(n - skip_per_bit s, n, 4, Stop_bit), (n, n, 10, Invalid_stop_bit),
                      if channel s = 0 then (run_start s, n, 5, Start_code)
                      else (run_start s, n, 6, Channel_text (channel s)),
                      (run_start s + skip_per_bit s, n - 2 * skip_per_bit s, 9,
                       Data_text (byte s))],
                   channel := channel s + 1, run_start := n, run_bit := pin,
                   state := MARK_IFT, bit_no := 11\<rparr>
            else s\<lparr>samplenum := n, next_sample := n, aggreg := pin,
                   out_ann := out_ann s @
                     [(n - skip_per_bit s, n, 4, Stop_bit), (n, n, 10, Invalid_stop_bit)],
                   run_bit := pin, state := FIND_BREAK, bit_no := bit_no s + 1\<rparr>, None)"
  using assms
  by (simp add: dmx_step_def read_byte_def sample_window_def bit_value_of_def stop_bit_def
      complete_byte_def put_def Let_def)

text \<open>
  C1.  A frame at 1 MHz whose second stop bit is low.  The window of bit index 10 is
  sampled at sample 166 with value 0: the step puts \<open>Invalid stop bit\<close> and sets the
  state to \<open>FIND_BREAK\<close>, and the block that labels a complete byte, which follows in
  the same step, puts \<open>Start code\<close> and the data annotation, counts the channel and sets
  the state to \<open>MARK_IFT\<close>.  In the frame whose first stop bit is low, the window of bit
  index 9 leaves the decoder in \<open>FIND_BREAK\<close>.
\<close>

theorem second_stop_bit_not_resynced:
  "dmx_decode dmx_1mhz 0 167 (stream_of frame_low_stop 0 167) =
     (\<lparr>samplerate = Some 1000000, sample_usec = Some 1, samplenum = 166,
       run_start = 166, run_bit = 0, state = MARK_IFT, skip_per_bit = 4,
       bit_break = 0, channel = 1, bit_no = 11, aggreg = 0, byte = 0,
       next_sample = 166,
       out_ann =
         [(10, 110, 1, Break_text), (110, 122, 2, MAB_text),
          (122, 126, 3, Start_bit), (126, 130, 0, Bit_text 0),
          (130, 134, 0, Bit_text 0), (134, 138, 0, Bit_text 0),
          (138, 142, 0, Bit_text 0), (142, 146, 0, Bit_text 0),
          (146, 150, 0, Bit_text 0), (150, 154, 0, Bit_text 0),
          (154, 158, 0, Bit_text 0), (158, 162, 4, Stop_bit),
          (162, 166, 4, Stop_bit), (166, 166, 10, Invalid_stop_bit),
          (122, 166, 5, Start_code), (126, 158, 9, Data_text 0)]\<rparr>, None)
   \<and> dmx_decode dmx_1mhz 0 163 (stream_of frame_low_first_stop 0 163) =
     (\<lparr>samplerate = Some 1000000, sample_usec = Some 1, samplenum = 162,
       run_start = 122, run_bit = 0, state = FIND_BREAK, skip_per_bit = 4,
       bit_break = 0, channel = 0, bit_no = 10, aggreg = 0, byte = 0,
       next_sample = 162,
       out_ann =
         [(10, 110, 1, Break_text), (110, 122, 2, MAB_text),
          (122, 126, 3, Start_bit), (126, 130, 0, Bit_text 0),
          (130, 134, 0, Bit_text 0), (134, 138, 0, Bit_text 0),
          (138, 142, 0, Bit_text 0), (142, 146, 0, Bit_text 0),
          (146, 150, 0, Bit_text 0), (150, 154, 0, Bit_text 0),
          (154, 158, 0, Bit_text 0), (158, 162, 4, Stop_bit),
          (162, 162, 10, Invalid_stop_bit)]\<rparr>, None)"
  by code_simp



lemma dmx_step_not_NotConfigured: "snd (dmx_step s ev) \<noteq> Some NotConfigured"
  by (cases "state s")
     (auto simp: dmx_step_def dmx_branch_defs Let_def split: option.splits prod.splits if_splits)

lemma dmx_loop_not_NotConfigured: "snd (dmx_loop s evs) \<noteq> Some NotConfigured"
proof (induction evs arbitrary: s)
  case Nil
  show ?case by simp
next
  case (Cons ev evs)
  obtain s1 e where st: "dmx_step s ev = (s1, e)" by (cases "dmx_step s ev")
  show ?case
  proof (cases e)
    case None
    with st Cons.IH [of s1] show ?thesis by simp
  next
    case (Some x)
    with st dmx_step_not_NotConfigured [of s ev] show ?thesis by simp
  qed
qed

text \<open>
  C9.  While no sample rate has been supplied, \<open>decode\<close> raises the not-configured
  exception before it looks at the first event: the decoder object is returned as it
  was, so neither its state nor its annotations change.  Once a sample rate is stored
  (which \<open>metadata\<close> does for the key \<open>SRD_CONF_SAMPLERATE\<close>), \<open>decode\<close> never raises
  that exception.
\<close>

theorem decode_requires_samplerate:
  "(samplerate s = None \<longrightarrow> dmx_decode s t0 t1 evs = (s, Some NotConfigured))
   \<and> (samplerate s \<noteq> None \<longrightarrow> snd (dmx_decode s t0 t1 evs) \<noteq> Some NotConfigured)
   \<and> samplerate (fst (metadata s SRD_CONF_SAMPLERATE v)) = Some v"
  by (simp add: dmx_decode_def dmx_loop_not_NotConfigured metadata_def Let_def)

theorem decode_requires_samplerate_witness:
  "samplerate dmx_init = None
   \<and> dmx_decode dmx_init 0 2 [(0, 1), (1, 0)] = (dmx_init, Some NotConfigured)
   \<and> samplerate dmx_1mhz \<noteq> None
   \<and> snd (dmx_decode dmx_1mhz 0 2 [(0, 1), (1, 0)]) \<noteq> Some NotConfigured"
  using decode_requires_samplerate [of dmx_init 0 2 "[(0, 1), (1, 0)]"]
    decode_requires_samplerate [of dmx_1mhz 0 2 "[(0, 1), (1, 0)]"]
  by (simp add: dmx_1mhz_simps dmx_init_def)

text \<open>
  C7.  The channel counter becomes 0 when a break is detected (and again when the mark
  after break ends), and it grows by exactly 1 when a byte is completed, which is when
  the window of bit index 10 is sampled; no other step of \<open>READ_BYTE\<close> changes it.
  In state \<open>MARK_IFT\<close> the first event with a different level puts \<open>Interpacket\<close> and
  goes to \<open>FIND_BREAK\<close> exactly when the channel counter is greater than 512; otherwise
  it puts \<open>Interframe\<close> and goes back to \<open>READ_BYTE\<close> with bit index 0.
\<close>

theorem channel_counter:
  "(state s = FIND_BREAK \<and> sample_usec s = Some u \<longrightarrow>
      channel (fst (dmx_step s (n, pin))) =
        (if run_bit s \<noteq> pin \<and> 88 < of_int (n - run_start s) * u
              \<and> of_int (n - run_start s) * u < 180
         then 0 else channel s))
   \<and> (state s = MARK_MAB \<longrightarrow>
      channel (fst (dmx_step s (n, pin))) = (if run_bit s \<noteq> pin then 0 else channel s))
   \<and> (state s = READ_BYTE \<longrightarrow>
      channel (fst (dmx_step s (n, pin))) =
        (if n = run_start s + (bit_no s + 1) * skip_per_bit s \<and> skip_per_bit s \<noteq> 0
              \<and> bit_no s = 10
         then channel s + 1 else channel s))
   \<and> (state s = READ_BYTE \<and> n = run_start s + (bit_no s + 1) * skip_per_bit s
        \<and> skip_per_bit s \<noteq> 0 \<and> bit_no s = 10 \<longrightarrow>
      state (fst (dmx_step s (n, pin))) = MARK_IFT \<and> snd (dmx_step s (n, pin)) = None)
   \<and> (state s = MARK_IFT \<longrightarrow>
      dmx_step s (n, pin) =
        (if run_bit s = pin then s\<lparr>samplenum := n\<rparr>
         else if 512 < channel s
         then s\<lparr>samplenum := n,
                out_ann := out_ann s @ [(run_start s, n, 8, Interpacket)],
                state := FIND_BREAK, run_bit := pin, run_start := n\<rparr>
         else s\<lparr>samplenum := n,
                out_ann := out_ann s @ [(run_start s, n, 7, Interframe)],
                state := READ_BYTE, bit_no := 0, run_start := n\<rparr>, None))"
proof (intro conjI impI)
  assume "state s = FIND_BREAK \<and> sample_usec s = Some u"
  then show "channel (fst (dmx_step s (n, pin))) =
        (if run_bit s \<noteq> pin \<and> 88 < of_int (n - run_start s) * u
              \<and> of_int (n - run_start s) * u < 180
         then 0 else channel s)"
    by (simp add: dmx_step_def find_break_channel)
next
  assume "state s = MARK_MAB"
  then show "channel (fst (dmx_step s (n, pin))) = (if run_bit s \<noteq> pin then 0 else channel s)"
    by (simp add: dmx_step_def mark_mab_def put_def)
next
  assume "state s = READ_BYTE"
  then show "channel (fst (dmx_step s (n, pin))) =
        (if n = run_start s + (bit_no s + 1) * skip_per_bit s \<and> skip_per_bit s \<noteq> 0
              \<and> bit_no s = 10
         then channel s + 1 else channel s)"
    by (simp add: dmx_step_def read_byte_channel)
next
  assume a: "state s = READ_BYTE \<and> n = run_start s + (bit_no s + 1) * skip_per_bit s
        \<and> skip_per_bit s \<noteq> 0 \<and> bit_no s = 10"
  then show "state (fst (dmx_step s (n, pin))) = MARK_IFT"
    using read_byte_complete [of "s\<lparr>samplenum := n\<rparr>" pin] by (simp add: dmx_step_def)
  from a show "snd (dmx_step s (n, pin)) = None"
    using read_byte_complete [of "s\<lparr>samplenum := n\<rparr>" pin] by (simp add: dmx_step_def)
next
  assume "state s = MARK_IFT"
  then show "dmx_step s (n, pin) =
        (if run_bit s = pin then s\<lparr>samplenum := n\<rparr>
         else if 512 < channel s
         then s\<lparr>samplenum := n,
                out_ann := out_ann s @ [(run_start s, n, 8, Interpacket)],
                state := FIND_BREAK, run_bit := pin, run_start := n\<rparr>
         else s\<lparr>samplenum := n,
                out_ann := out_ann s @ [(run_start s, n, 7, Interframe)],
                state := READ_BYTE, bit_no := 0, run_start := n\<rparr>, None)"
    by (simp add: dmx_step_def mark_ift_eq)
qed

theorem channel_counter_witness:
  "channel (fst (dmx_step (dmx_1mhz\<lparr>channel := 7\<rparr>) (100, 1))) = 0
   \<and> channel (fst (dmx_step (dmx_1mhz\<lparr>channel := 7, state := MARK_MAB\<rparr>) (100, 1))) = 0
   \<and> state dmx_before_stop2 = READ_BYTE \<and> bit_no dmx_before_stop2 = 10
   \<and> channel dmx_before_stop2 = 0
   \<and> channel (fst (dmx_step dmx_before_stop2 (166, 0))) = 1
   \<and> state (fst (dmx_step dmx_before_stop2 (166, 0))) = MARK_IFT
   \<and> channel (fst (dmx_step dmx_before_start (126, 1))) = 0
   \<and> dmx_step dmx_late_frame (22700, 0) =
       (dmx_late_frame\<lparr>samplenum := 22700, out_ann := [(22696, 22700, 8, Interpacket)],
                       state := FIND_BREAK, run_bit := 0, run_start := 22700\<rparr>, None)
   \<and> dmx_step (dmx_late_frame\<lparr>channel := 512\<rparr>) (22700, 0) =
       (dmx_late_frame\<lparr>channel := 512, samplenum := 22700,
                       out_ann := [(22696, 22700, 7, Interframe)],
                       state := READ_BYTE, bit_no := 0, run_start := 22700\<rparr>, None)
   \<and> dmx_step dmx_late_frame (22700, 1) = (dmx_late_frame\<lparr>samplenum := 22700\<rparr>, None)"
  using channel_counter [where s = "dmx_1mhz\<lparr>channel := 7\<rparr>" and n = 100 and pin = 1 and u = 1]
    channel_counter [where s = "dmx_1mhz\<lparr>channel := 7, state := MARK_MAB\<rparr>" and n = 100 and pin = 1]
    channel_counter [where s = dmx_before_stop2 and n = 166 and pin = 0]
    channel_counter [where s = dmx_before_start and n = 126 and pin = 1]
    channel_counter [where s = dmx_late_frame and n = 22700 and pin = 0]
    channel_counter [where s = "dmx_late_frame\<lparr>channel := 512\<rparr>" and n = 22700 and pin = 0]
    channel_counter [where s = dmx_late_frame and n = 22700 and pin = 1]
  by (simp add: dmx_before_stop2_eq dmx_before_start_eq dmx_late_frame_def dmx_1mhz_simps
      dmx_init_def)





section \<open>SPI flash: properties\<close>

lemma if_or_bit: "(if P then r OR push_bit k 1 else r) = r OR push_bit k (of_bool P :: int)"
  by simp

lemma upt4: "[0..<4] = [0, 1, 2, 3]"
  by (simp add: upt_rec)

lemma combine_byte_bits:
  "bit (combine_byte e d) n \<longleftrightarrow>
     n < 8 \<and> (if even n then bit e (n div 2) else bit d (n div 2))"
proof -
  have cb: "combine_byte e d =
      push_bit 0 (of_bool (bit e 0)) OR push_bit 1 (of_bool (bit d 0))
      OR push_bit 2 (of_bool (bit e 1)) OR push_bit 3 (of_bool (bit d 1))
      OR push_bit 4 (of_bool (bit e 2)) OR push_bit 5 (of_bool (bit d 2))
      OR push_bit 6 (of_bool (bit e 3)) OR push_bit 7 (of_bool (bit d 3))"
    unfolding combine_byte_def upt4 Let_def bit_iff_and_push_bit_not_eq_0 [symmetric] if_or_bit
    by (simp add: ac_simps)
  have "n \<in> {0, 1, 2, 3, 4, 5, 6, 7} \<or> 8 \<le> n"
    by auto
  then show ?thesis
    unfolding cb bit_or_iff bit_push_bit_iff bit_of_bool_iff
    by (elim disjE insertE emptyE) simp_all
qed

lemma byte_bits: "0 \<le> x \<Longrightarrow> x < 256 \<Longrightarrow> bit (x :: int) n \<Longrightarrow> n < 8"
proof -
  assume a: "0 \<le> x" "x < 256" "bit x n"
  have "take_bit 8 x = x" using a by (simp add: take_bit_int_eq_self)
  then have "bit (take_bit 8 x) n" using a by simp
  then show "n < 8" by (simp add: bit_take_bit_iff)
qed

lemma even_bits_bit: "bit (even_bits x) n \<longleftrightarrow> n < 4 \<and> bit x (2 * n)"
proof -
  have eb: "even_bits x =
      (((0 OR push_bit 0 (of_bool (bit x (2 * 0)))) OR push_bit 1 (of_bool (bit x (2 * 1))))
        OR push_bit 2 (of_bool (bit x (2 * 2)))) OR push_bit 3 (of_bool (bit x (2 * 3)))"
    unfolding even_bits_def upt4 if_or_bit by (simp only: fold_simps comp_apply id_apply)
  have "n \<in> {0, 1, 2, 3} \<or> 4 \<le> n" by auto
  then show ?thesis
    unfolding eb bit_or_iff bit_push_bit_iff bit_of_bool_iff
    by (elim disjE insertE emptyE) simp_all
qed

lemma odd_bits_bit: "bit (odd_bits x) n \<longleftrightarrow> n < 4 \<and> bit x (2 * n + 1)"
proof -
  have ob: "odd_bits x =
      (((0 OR push_bit 0 (of_bool (bit x (2 * 0 + 1)))) OR push_bit 1 (of_bool (bit x (2 * 1 + 1))))
        OR push_bit 2 (of_bool (bit x (2 * 2 + 1)))) OR push_bit 3 (of_bool (bit x (2 * 3 + 1)))"
    unfolding odd_bits_def upt4 if_or_bit by (simp only: fold_simps comp_apply id_apply)
  have "n \<in> {0, 1, 2, 3} \<or> 4 \<le> n" by auto
  then show ?thesis
    unfolding ob bit_or_iff bit_push_bit_iff bit_of_bool_iff
    by (elim disjE insertE emptyE) simp_all
qed

lemma resplit_even:
  assumes "0 \<le> x" and "x < 256"
  shows "push_bit 4 (even_bits (combine_byte (drop_bit 4 x) (drop_bit 4 y)))
           OR even_bits (combine_byte x y) = x"
proof (rule bit_eqI)
  fix n
  have hi: "bit x n \<Longrightarrow> n < 8" using assms byte_bits by blast
  have "n < 4 \<or> (4 \<le> n \<and> n < 8) \<or> 8 \<le> n" by arith
  then show "bit (push_bit 4 (even_bits (combine_byte (drop_bit 4 x) (drop_bit 4 y)))
           OR even_bits (combine_byte x y)) n \<longleftrightarrow> bit x n"
    using hi
    by (auto simp add: bit_or_iff bit_push_bit_iff even_bits_bit combine_byte_bits bit_drop_bit_eq)
qed

lemma resplit_odd:
  assumes "0 \<le> y" and "y < 256"
  shows "push_bit 4 (odd_bits (combine_byte (drop_bit 4 x) (drop_bit 4 y)))
           OR odd_bits (combine_byte x y) = y"
proof (rule bit_eqI)
  fix n
  have hi: "bit y n \<Longrightarrow> n < 8" using assms byte_bits by blast
  have "n < 4 \<or> (4 \<le> n \<and> n < 8) \<or> 8 \<le> n" by arith
  then show "bit (push_bit 4 (odd_bits (combine_byte (drop_bit 4 x) (drop_bit 4 y)))
           OR odd_bits (combine_byte x y)) n \<longleftrightarrow> bit y n"
    using hi
    by (auto simp add: bit_or_iff bit_push_bit_iff odd_bits_bit combine_byte_bits bit_drop_bit_eq)
qed

lemma spi_decode_all_append:
  "spi_decode_all s (xs @ ys) =
     (case spi_decode_all s xs of (s1, None) \<Rightarrow> spi_decode_all s1 ys | (s1, Some x) \<Rightarrow> (s1, Some x))"
  by (induction xs arbitrary: s) (auto split: prod.splits option.splits)

lemma decode_cs_change:
  "spi_decode s a b (''CS-CHANGE'', mosi, miso) =
     ((case on_end_transaction s of
         None \<Rightarrow> s\<lparr>ss := a, es := b\<rparr>
       | Some label \<Rightarrow>
           s\<lparr>ss := a, es := b, es_block := b,
             out_spi := out_spi s @
               [(ss_block s, b, 25,
                 Data_block label (length (data s))
                   (if format_opt s = ''hex'' then Hex_text (data s) else Ascii_text (data s)))],
             on_end_transaction := None\<rparr>)
      \<lparr>state_spi := None, cmdstate := 1, addr := 0, data := []\<rparr>, None)"
  by (simp add: spi_decode_def end_current_transaction_def output_data_block_def putb_def
      spi_put_def Let_def split: option.splits)

lemma decode_pp_opcode:
  assumes "state_spi s = None" and "map_of (cmd_handlers s) c = Some Handle_pp"
    and "map_of (cmds s) c = Some (shortname, longname)"
  shows "spi_decode s a b (''DATA'', c, miso) =
           (s\<lparr>ss := a, es := b, state_spi := Some c, cmdstate := 2,
              out_spi := out_spi s @ [(a, b, 12, Command longname)]\<rparr>, None)"
  using assms
  by (simp add: spi_decode_def handle_pp_def putx_command_def cmd_longname_def putx_def
      spi_put_def then_do_def Let_def)

lemma decode_pp_address:
  assumes "state_spi s = Some c" and "map_of (cmd_handlers s) c = Some Handle_pp"
    and "cmdstate s = 2 \<or> cmdstate s = 3 \<or> cmdstate s = 4"
  shows "\<exists>s'. spi_decode s a b (''DATA'', mosi, miso) = (s', None)
           \<and> state_spi s' = Some c \<and> cmd_handlers s' = cmd_handlers s
           \<and> cmdstate s' = cmdstate s + 1
           \<and> on_end_transaction s' = on_end_transaction s
           \<and> filter is_data_block (out_spi s') = filter is_data_block (out_spi s)"
  using assms
  by (auto simp add: spi_decode_def handle_pp_def add_addr_byte_def putx_def
      spi_put_def then_do_def is_data_block_def Let_def)

lemma decode_pp_addresses:
  assumes "state_spi s = Some c" and "map_of (cmd_handlers s) c = Some Handle_pp"
    and "2 \<le> cmdstate s" and "cmdstate s + int (length bs) \<le> 5"
  shows "\<exists>s'. spi_decode_all s (data_packets bs) = (s', None)
           \<and> on_end_transaction s' = on_end_transaction s
           \<and> filter is_data_block (out_spi s') = filter is_data_block (out_spi s)"
  using assms
proof (induction bs arbitrary: s)
  case Nil
  then show ?case by (simp add: data_packets_def)
next
  case (Cons p bs)
  obtain a b mosi miso where p: "p = (a, b, mosi, miso)" by (cases p)
  from Cons.prems have k: "cmdstate s = 2 \<or> cmdstate s = 3 \<or> cmdstate s = 4" by auto
  from decode_pp_address [OF Cons.prems(1,2) k, of a b mosi miso] obtain s1 where
    s1: "spi_decode s a b (''DATA'', mosi, miso) = (s1, None)" "state_spi s1 = Some c"
      "cmd_handlers s1 = cmd_handlers s" "cmdstate s1 = cmdstate s + 1"
      "on_end_transaction s1 = on_end_transaction s"
      "filter is_data_block (out_spi s1) = filter is_data_block (out_spi s)"
    by blast
  have "\<exists>s'. spi_decode_all s1 (data_packets bs) = (s', None)
           \<and> on_end_transaction s' = on_end_transaction s1
           \<and> filter is_data_block (out_spi s') = filter is_data_block (out_spi s1)"
    using Cons.prems s1 by (intro Cons.IH) auto
  then show ?case
    using s1 p by (auto simp add: data_packets_def)
qed

lemma example_spi_eq:
  "example_spi =
     \<lparr>cmds = example_cmds, device_name = example_names, format_opt = ''hex'',
      cmd_handlers =
        [(6, Handle_wren), (4, Handle_wrdi), (159, Handle_rdid),
         (5, Handle_rdsr), (1, Handle_wrsr), (3, Handle_read),
         (11, Handle_fast_read), (187, Handle_2read), (32, Handle_se),
         (216, Handle_be), (96, Handle_ce), (199, Handle_ce2),
         (2, Handle_pp), (173, Handle_cp), (185, Handle_dp),
         (171, Handle_rdp_res), (144, Handle_rems), (239, Handle_rems2),
         (177, Handle_enso), (193, Handle_exso), (43, Handle_rdscur),
         (47, Handle_wrscur), (104, Handle_esry), (128, Handle_dsry)],
      on_end_transaction = None, state_spi = None, cmdstate = 1, addr = 0,
      data = [], ss = 0, es = 0, ss_block = 0, es_block = 0,
      device_id = 0, ids = [], manufacturer_id_first = False, out_spi = []\<rparr>"
  by code_simp

lemma spi_pp_open_eq:
  "spi_pp_open =
     example_spi\<lparr>on_end_transaction := Some ''Page data'', state_spi := Some 2,
                 cmdstate := 7, data := [65, 66], ss := 40, es := 48, ss_block := 32,
                 out_spi := [(0, 8, 12, Command ''Page program''),
                             (24, 32, 24, Page_address 66051)]\<rparr>"
  by code_simp

lemma decode_fresh_opcode:
  assumes "state_spi s = None"
  shows "spi_decode s a b (''DATA'', mosi, miso) =
           spi_decode (s\<lparr>state_spi := Some mosi, cmdstate := 1\<rparr>) a b (''DATA'', mosi, miso)"
proof -
  have sw: "s\<lparr>ss := a, es := b, state_spi := Some mosi, cmdstate := 1\<rparr>
          = s\<lparr>state_spi := Some mosi, cmdstate := 1, ss := a, es := b\<rparr>"
    by simp
  show ?thesis
    using assms by (simp add: spi_decode_def Let_def sw)
qed

lemma decode_se_last_byte:
  assumes "state_spi s = Some c" and "map_of (cmd_handlers s) c = Some Handle_se"
    and "cmdstate s = 4"
  shows "spi_decode s a b (''DATA'', mosi, miso) =
           (s\<lparr>ss := a, es := b, addr := addr s OR mosi,
              out_spi := out_spi s @ (ss_block s, b, 24, Erase_sector (addr s OR mosi))
                # (if (addr s OR mosi) mod 4096 \<noteq> 0
                   then [(ss_block s, b, 101, Invalid_sector_address)] else []),
              state_spi := None\<rparr>, None)"
  using assms
  by (simp add: spi_decode_def handle_se_def add_addr_byte_def spi_put_def then_do_def Let_def)

text \<open>
  C3.  A packet \<open>CS-CHANGE\<close> ends the current transaction: when a callback is
  registered it is called once, which puts one data-block annotation from the start of
  the block to the end of this packet, and the callback is cleared; then the command is
  \<open>None\<close>, \<open>cmdstate\<close> is 1, the address 0 and the data empty.  A second
  \<open>CS-CHANGE\<close> puts nothing more.  A page-program session that starts with no command
  active and no callback registered, and whose \<open>CS-CHANGE\<close> comes after the command
  byte and at most three address bytes, raises nothing, puts no data-block annotation and
  ends with the command \<open>None\<close>.
\<close>

theorem cs_change_flushes:
  "spi_decode s a b (''CS-CHANGE'', mosi, miso) =
     ((case on_end_transaction s of
         None \<Rightarrow> s\<lparr>ss := a, es := b\<rparr>
       | Some label \<Rightarrow>
           s\<lparr>ss := a, es := b, es_block := b,
             out_spi := out_spi s @
               [(ss_block s, b, 25,
                 Data_block label (length (data s))
                   (if format_opt s = ''hex'' then Hex_text (data s) else Ascii_text (data s)))],
             on_end_transaction := None\<rparr>)
      \<lparr>state_spi := None, cmdstate := 1, addr := 0, data := []\<rparr>, None)
   \<and> on_end_transaction (fst (spi_decode s a b (''CS-CHANGE'', mosi, miso))) = None
   \<and> out_spi (fst (spi_decode (fst (spi_decode s a b (''CS-CHANGE'', mosi, miso))) a' b'
                     (''CS-CHANGE'', mosi', miso')))
       = out_spi (fst (spi_decode s a b (''CS-CHANGE'', mosi, miso)))
   \<and> (state_spi s = None \<and> on_end_transaction s = None
        \<and> map_of (cmd_handlers s) c = Some Handle_pp
        \<and> map_of (cmds s) c = Some (shortname, longname) \<and> length bs \<le> 3 \<longrightarrow>
        snd (spi_decode_all s ((a0, b0, ''DATA'', c, m0) # data_packets bs
                               @ [(a1, b1, ''CS-CHANGE'', x, y)])) = None
        \<and> filter is_data_block
            (out_spi (fst (spi_decode_all s ((a0, b0, ''DATA'', c, m0) # data_packets bs
                                             @ [(a1, b1, ''CS-CHANGE'', x, y)]))))
            = filter is_data_block (out_spi s)
        \<and> state_spi (fst (spi_decode_all s ((a0, b0, ''DATA'', c, m0) # data_packets bs
                                             @ [(a1, b1, ''CS-CHANGE'', x, y)]))) = None)"
proof (intro conjI impI)
  show "spi_decode s a b (''CS-CHANGE'', mosi, miso) =
     ((case on_end_transaction s of
         None \<Rightarrow> s\<lparr>ss := a, es := b\<rparr>
       | Some label \<Rightarrow>
           s\<lparr>ss := a, es := b, es_block := b,
             out_spi := out_spi s @
               [(ss_block s, b, 25,
                 Data_block label (length (data s))
                   (if format_opt s = ''hex'' then Hex_text (data s) else Ascii_text (data s)))],
             on_end_transaction := None\<rparr>)
      \<lparr>state_spi := None, cmdstate := 1, addr := 0, data := []\<rparr>, None)"
    by (rule decode_cs_change)
  show none: "on_end_transaction (fst (spi_decode s a b (''CS-CHANGE'', mosi, miso))) = None"
    by (simp add: decode_cs_change split: option.splits)
  show "out_spi (fst (spi_decode (fst (spi_decode s a b (''CS-CHANGE'', mosi, miso))) a' b'
                     (''CS-CHANGE'', mosi', miso')))
       = out_spi (fst (spi_decode s a b (''CS-CHANGE'', mosi, miso)))"
    using none
    by (simp add: decode_cs_change [of "fst (spi_decode s a b (''CS-CHANGE'', mosi, miso))"])
next
  assume h: "state_spi s = None \<and> on_end_transaction s = None
        \<and> map_of (cmd_handlers s) c = Some Handle_pp
        \<and> map_of (cmds s) c = Some (shortname, longname) \<and> length bs \<le> 3"
  let ?s1 = "s\<lparr>ss := a0, es := b0, state_spi := Some c, cmdstate := 2,
              out_spi := out_spi s @ [(a0, b0, 12, Command longname)]\<rparr>"
  have first: "spi_decode s a0 b0 (''DATA'', c, m0) = (?s1, None)"
    using h decode_pp_opcode by blast
  from h decode_pp_addresses [of ?s1 c bs] obtain s2 where
    s2: "spi_decode_all ?s1 (data_packets bs) = (s2, None)"
      "on_end_transaction s2 = None"
      "filter is_data_block (out_spi s2) = filter is_data_block (out_spi s)"
    by (auto simp add: is_data_block_def)
  have all: "spi_decode_all s ((a0, b0, ''DATA'', c, m0) # data_packets bs
                               @ [(a1, b1, ''CS-CHANGE'', x, y)])
      = (s2\<lparr>ss := a1, es := b1, state_spi := None, cmdstate := 1, addr := 0, data := []\<rparr>, None)"
    using first s2 by (simp add: spi_decode_all_append decode_cs_change)
  show "snd (spi_decode_all s ((a0, b0, ''DATA'', c, m0) # data_packets bs
                               @ [(a1, b1, ''CS-CHANGE'', x, y)])) = None"
    unfolding all by simp
  show "filter is_data_block
            (out_spi (fst (spi_decode_all s ((a0, b0, ''DATA'', c, m0) # data_packets bs
                                             @ [(a1, b1, ''CS-CHANGE'', x, y)]))))
            = filter is_data_block (out_spi s)"
    unfolding all using s2 by simp
  show "state_spi (fst (spi_decode_all s ((a0, b0, ''DATA'', c, m0) # data_packets bs
                                             @ [(a1, b1, ''CS-CHANGE'', x, y)]))) = None"
    unfolding all by simp
qed

theorem cs_change_flushes_witness:
  "on_end_transaction spi_pp_open = Some ''Page data''
   \<and> spi_decode spi_pp_open 48 48 (''CS-CHANGE'', 0, 1) =
       (example_spi\<lparr>ss := 48, es := 48, ss_block := 32, es_block := 48,
                    out_spi := [(0, 8, 12, Command ''Page program''),
                                (24, 32, 24, Page_address 66051),
                                (32, 48, 25, Data_block ''Page data'' 2 (Hex_text [65, 66]))]\<rparr>,
        None)
   \<and> state_spi example_spi = None \<and> on_end_transaction example_spi = None
   \<and> map_of (cmd_handlers example_spi) 2 = Some Handle_pp
   \<and> filter is_data_block
       (out_spi (fst (spi_decode_all example_spi
                        ((0, 8, ''DATA'', 2, 0)
                         # data_packets [(8, 16, 1, 0), (16, 24, 2, 0), (24, 32, 3, 0)]
                         @ [(32, 32, ''CS-CHANGE'', 0, 1)])))) = []
   \<and> snd (spi_decode_all example_spi
             ((0, 8, ''DATA'', 2, 0)
              # data_packets [(8, 16, 1, 0), (16, 24, 2, 0), (24, 32, 3, 0)]
              @ [(32, 32, ''CS-CHANGE'', 0, 1)])) = None"
  using cs_change_flushes [where s = spi_pp_open and a = 48 and b = 48 and mosi = 0 and miso = 1]
    cs_change_flushes [where s = example_spi and c = 2 and shortname = "''PP''"
      and longname = "''Page program''" and ?a0.0 = 0 and ?b0.0 = 8 and ?m0.0 = 0
      and bs = "[(8, 16, 1, 0), (16, 24, 2, 0), (24, 32, 3, 0)]"
      and ?a1.0 = 32 and ?b1.0 = 32 and x = 0 and y = 1]
  by (simp add: spi_pp_open_eq example_spi_eq example_cmds_def)

text \<open>
  C4.  For two bytes in 0..255, \<open>decode_dual_bytes\<close> followed by the re-splitting gives
  the two bytes back.  Bit \<open>b\<close> of a nibble of the primary byte is bit \<open>2b\<close> and bit
  \<open>b\<close> of a nibble of the secondary byte is bit \<open>2b + 1\<close> of the reconstructed byte,
  the high nibbles giving the first and the low nibbles the second byte.
\<close>

theorem dual_io_roundtrip:
  assumes "0 \<le> sio0" and "sio0 \<le> 255" and "0 \<le> sio1" and "sio1 \<le> 255"
  shows "resplit_dual (decode_dual_bytes sio0 sio1) = (sio0, sio1)
         \<and> (\<forall>b<4. (bit (fst (decode_dual_bytes sio0 sio1)) (2 * b) \<longleftrightarrow> bit sio0 (b + 4))
                  \<and> (bit (fst (decode_dual_bytes sio0 sio1)) (2 * b + 1) \<longleftrightarrow> bit sio1 (b + 4))
                  \<and> (bit (snd (decode_dual_bytes sio0 sio1)) (2 * b) \<longleftrightarrow> bit sio0 b)
                  \<and> (bit (snd (decode_dual_bytes sio0 sio1)) (2 * b + 1) \<longleftrightarrow> bit sio1 b))"
proof
  show "resplit_dual (decode_dual_bytes sio0 sio1) = (sio0, sio1)"
    using assms by (simp add: resplit_dual_def decode_dual_bytes_def resplit_even resplit_odd)
  show "\<forall>b<4. (bit (fst (decode_dual_bytes sio0 sio1)) (2 * b) \<longleftrightarrow> bit sio0 (b + 4))
                  \<and> (bit (fst (decode_dual_bytes sio0 sio1)) (2 * b + 1) \<longleftrightarrow> bit sio1 (b + 4))
                  \<and> (bit (snd (decode_dual_bytes sio0 sio1)) (2 * b) \<longleftrightarrow> bit sio0 b)
                  \<and> (bit (snd (decode_dual_bytes sio0 sio1)) (2 * b + 1) \<longleftrightarrow> bit sio1 b)"
    by (simp add: decode_dual_bytes_def combine_byte_bits bit_drop_bit_eq add.commute)
qed

theorem dual_io_roundtrip_witness:
  "decode_dual_bytes 165 60 = (78, 177) \<and> resplit_dual (78, 177) = (165, 60)
   \<and> bit (78 :: int) (2 * 1) = bit (165 :: int) (1 + 4)"
proof -
  have d: "decode_dual_bytes 165 60 = (78, 177)" by code_simp
  show ?thesis
    using dual_io_roundtrip [of 165 60] d by simp
qed

text \<open>
  C5.  The sector erase of address 4097, over the concrete command table: the fourth byte
  puts the annotation of the erase and one warning, and clears the command; the warning
  has the class 101.  The decoder has 27 annotation classes, 0 to 26, the class
  \<open>warnings\<close> is number 26, and that is the class of the row \<open>warnings\<close> in
  \<open>annotation_rows\<close>.  The erase of address 4096 puts no warning.
\<close>

theorem sector_erase_warning_class:
  "out_spi (fst (spi_decode_all example_spi
                   (data_packets [(0, 8, 0x20, 0), (8, 16, 0x00, 0), (16, 24, 0x10, 0),
                                  (24, 32, 0x01, 0)]))) =
     [(0, 8, 8, Command ''Sector erase''), (0, 32, 24, Erase_sector 4097),
      (0, 32, 101, Invalid_sector_address)]
   \<and> state_spi (fst (spi_decode_all example_spi
                   (data_packets [(0, 8, 0x20, 0), (8, 16, 0x00, 0), (16, 24, 0x10, 0),
                                  (24, 32, 0x01, 0)]))) = None
   \<and> out_spi (fst (spi_decode_all example_spi
                   (data_packets [(0, 8, 0x20, 0), (8, 16, 0x00, 0), (16, 24, 0x10, 0),
                                  (24, 32, 0x00, 0)]))) =
     [(0, 8, 8, Command ''Sector erase''), (0, 32, 24, Erase_sector 4096)]
   \<and> length (annotations example_spi) = 27
   \<and> annotations example_spi ! 26 = (''warnings'', ''Warnings'')
   \<and> annotation_rows ! 2 = (''warnings'', ''Warnings'', [26])"
  by code_simp

text \<open>
  C6, as it is stated, fails for the write-disable command: \<open>handle_wrdi\<close> consists of
  \<open>pass\<close>, so after the command byte 4 the command stays active, and a following byte 6
  (write enable) is consumed without any annotation.  Two write-enable bytes in a row
  are both decoded as commands.
\<close>

theorem write_disable_stays_active:
  "map_of (cmd_handlers example_spi) 4 = Some Handle_wrdi
   \<and> state_spi (fst (spi_decode example_spi 0 8 (''DATA'', 4, 0))) = Some 4
   \<and> spi_decode_all example_spi (data_packets [(0, 8, 4, 0), (8, 16, 6, 0)])
       = (example_spi\<lparr>ss := 8, es := 16, state_spi := Some 4\<rparr>, None)
   \<and> out_spi (fst (spi_decode_all example_spi (data_packets [(0, 8, 6, 0), (8, 16, 6, 0)])))
       = [(0, 8, 0, Command ''Write enable''), (8, 16, 0, Command ''Write enable'')]"
  by code_simp

text \<open>
  C6, amended.  The write-enable command is complete after its command byte: the byte
  puts the annotation of the command and clears the active command, and with no active
  command a data byte is decoded as a command byte.  The write-disable handler is a
  placeholder: its command byte leaves the command active, and every further data byte
  of the session is consumed by it, without annotation and without change of the command.
\<close>

theorem write_enable_single_byte:
  "(state_spi s = None \<and> map_of (cmd_handlers s) c = Some Handle_wren
      \<and> map_of (cmds s) c = Some (shortname, longname) \<longrightarrow>
      spi_decode s a b (''DATA'', c, miso) =
        (s\<lparr>ss := a, es := b, cmdstate := 1,
           out_spi := out_spi s @ [(a, b, 0, Command longname)], state_spi := None\<rparr>, None))
   \<and> (state_spi s = None \<longrightarrow>
        spi_decode s a b (''DATA'', mosi, miso) =
          spi_decode (s\<lparr>state_spi := Some mosi, cmdstate := 1\<rparr>) a b (''DATA'', mosi, miso))
   \<and> (state_spi s = None \<and> map_of (cmd_handlers s) c = Some Handle_wrdi \<longrightarrow>
        spi_decode s a b (''DATA'', c, miso) =
          (s\<lparr>ss := a, es := b, state_spi := Some c, cmdstate := 1\<rparr>, None))
   \<and> (state_spi s = Some c \<and> map_of (cmd_handlers s) c = Some Handle_wrdi \<longrightarrow>
        spi_decode s a b (''DATA'', mosi, miso) = (s\<lparr>ss := a, es := b\<rparr>, None))"
proof (intro conjI impI)
  assume "state_spi s = None \<and> map_of (cmd_handlers s) c = Some Handle_wren
      \<and> map_of (cmds s) c = Some (shortname, longname)"
  then show "spi_decode s a b (''DATA'', c, miso) =
        (s\<lparr>ss := a, es := b, cmdstate := 1,
           out_spi := out_spi s @ [(a, b, 0, Command longname)], state_spi := None\<rparr>, None)"
    by (simp add: spi_decode_def handle_wren_def putx_command_def cmd_longname_def putx_def
        spi_put_def then_do_def Let_def)
next
  assume "state_spi s = None"
  then show "spi_decode s a b (''DATA'', mosi, miso) =
          spi_decode (s\<lparr>state_spi := Some mosi, cmdstate := 1\<rparr>) a b (''DATA'', mosi, miso)"
    by (rule decode_fresh_opcode)
next
  assume "state_spi s = None \<and> map_of (cmd_handlers s) c = Some Handle_wrdi"
  then show "spi_decode s a b (''DATA'', c, miso) =
          (s\<lparr>ss := a, es := b, state_spi := Some c, cmdstate := 1\<rparr>, None)"
    by (simp add: spi_decode_def handle_wrdi_def Let_def)
next
  assume "state_spi s = Some c \<and> map_of (cmd_handlers s) c = Some Handle_wrdi"
  then show "spi_decode s a b (''DATA'', mosi, miso) = (s\<lparr>ss := a, es := b\<rparr>, None)"
    by (simp add: spi_decode_def handle_wrdi_def Let_def)
qed

theorem write_enable_single_byte_witness:
  "state_spi example_spi = None \<and> map_of (cmd_handlers example_spi) 6 = Some Handle_wren
   \<and> map_of (cmds example_spi) 6 = Some (''WREN'', ''Write enable'')
   \<and> spi_decode example_spi 0 8 (''DATA'', 6, 0) =
       (example_spi\<lparr>ss := 0, es := 8, out_spi := [(0, 8, 0, Command ''Write enable'')]\<rparr>, None)
   \<and> map_of (cmd_handlers example_spi) 4 = Some Handle_wrdi
   \<and> spi_decode example_spi 0 8 (''DATA'', 4, 0) =
       (example_spi\<lparr>ss := 0, es := 8, state_spi := Some 4\<rparr>, None)
   \<and> spi_decode (example_spi\<lparr>ss := 0, es := 8, state_spi := Some 4\<rparr>) 8 16 (''DATA'', 6, 0) =
       (example_spi\<lparr>ss := 8, es := 16, state_spi := Some 4\<rparr>, None)"
proof -
  have h: "state_spi example_spi = None" "map_of (cmd_handlers example_spi) 6 = Some Handle_wren"
    "map_of (cmds example_spi) 6 = Some (''WREN'', ''Write enable'')"
    "map_of (cmd_handlers example_spi) 4 = Some Handle_wrdi"
    "cmdstate example_spi = 1" "out_spi example_spi = []"
    by (simp_all add: example_spi_eq example_cmds_def)
  have wren: "spi_decode example_spi 0 8 (''DATA'', 6, 0) =
       (example_spi\<lparr>ss := 0, es := 8, cmdstate := 1,
           out_spi := out_spi example_spi @ [(0, 8, 0, Command ''Write enable'')],
           state_spi := None\<rparr>, None)"
    using write_enable_single_byte [where s = example_spi and c = 6 and a = 0 and b = 8
      and miso = 0 and shortname = "''WREN''" and longname = "''Write enable''"] h
    by blast
  have wrdi: "spi_decode example_spi 0 8 (''DATA'', 4, 0) =
          (example_spi\<lparr>ss := 0, es := 8, state_spi := Some 4, cmdstate := 1\<rparr>, None)"
    using write_enable_single_byte [where s = example_spi and c = 4 and a = 0 and b = 8
      and miso = 0] h
    by blast
  have more: "spi_decode (example_spi\<lparr>ss := 0, es := 8, state_spi := Some 4\<rparr>) 8 16
                (''DATA'', 6, 0) =
          (example_spi\<lparr>ss := 0, es := 8, state_spi := Some 4\<rparr>\<lparr>ss := 8, es := 16\<rparr>, None)"
    using write_enable_single_byte [where s = "example_spi\<lparr>ss := 0, es := 8, state_spi := Some 4\<rparr>"
      and c = 4 and a = 8 and b = 16 and mosi = 6 and miso = 0] h
    by simp
  show ?thesis
    using h wren wrdi more by (simp add: example_spi_eq)
qed

end
